theory Spec2Isabelle
  imports Main
begin

section \<open>Answer state of one question (handleOptionClick)\<close>

text \<open>
  The part of a question's subtree that \<open>handleOptionClick\<close>, \<open>showExplanation\<close> and
  \<open>revealExplanation\<close> read and write:
  \<^item> an option element: its class list and its \<open>disabled\<close> attribute (absent or a value);
  \<^item> the explanation element: the two inline style properties the code assigns;
  \<^item> the first \<open>.show-answer-btn\<close> of the question: its text, its background and its
    \<open>nextElementSibling\<close> (the explanation, when there is one);
  \<^item> the question element: \<open>dataset.attempts\<close> (always the decimal text of a natural
    number: the load handler writes \<open>'0'\<close> and the click handler writes
    \<open>attempts.toString()\<close>; the model keeps the number), \<open>dataset.answered\<close> (a string),
    the list \<open>querySelectorAll('.option')\<close> in document order, and
    \<open>querySelector('.show-answer-btn')\<close>.
  The two button labels are Turkish in the source; they are transliterated to ASCII here.
\<close>

record opt_el =
  classList :: "string set"
  disabledAttr :: "string option"

record explanation =
  display :: string
  animation :: string

record answer_btn =
  textContent :: string
  background :: string
  nextElementSibling :: "explanation option"

record question =
  attempts :: nat
  answered :: string
  options :: "opt_el list"
  showAnswerBtn :: "answer_btn option"

definition showExplanation :: "answer_btn \<Rightarrow> answer_btn" where
  "showExplanation button =
     (case nextElementSibling button of
        None \<Rightarrow> button
      | Some explanation \<Rightarrow>
          if display explanation = ''none'' \<or> display explanation = ''''
          then button\<lparr>nextElementSibling :=
                        Some (explanation\<lparr>display := ''block'',
                                           animation := ''fadeIn 0.5s ease-in-out''\<rparr>),
                      textContent := ''Aciklamayi Gizle'',
                      background := ''linear-gradient(135deg, #e74c3c, #c0392b)''\<rparr>
          else button\<lparr>nextElementSibling := Some (explanation\<lparr>display := ''none''\<rparr>),
                      textContent := ''Aciklamayi Goster'',
                      background := ''linear-gradient(135deg, #27ae60, #229954)''\<rparr>)"

definition revealExplanation :: "question \<Rightarrow> question" where
  "revealExplanation q =
     (case showAnswerBtn q of
        None \<Rightarrow> q
      | Some button \<Rightarrow>
          (case nextElementSibling button of
             None \<Rightarrow> q
           | Some explanation \<Rightarrow>
               if display explanation = ''none'' \<or> display explanation = ''''
               then q\<lparr>showAnswerBtn := Some (showExplanation button)\<rparr>
               else q))"

text \<open>\<open>opt.classList.add(c)\<close> and \<open>opt.setAttribute('disabled', 'true')\<close>.\<close>

definition addClass :: "string \<Rightarrow> opt_el \<Rightarrow> opt_el" where
  "addClass c el = el\<lparr>classList := insert c (classList el)\<rparr>"

definition setDisabled :: "opt_el \<Rightarrow> opt_el" where
  "setDisabled el = el\<lparr>disabledAttr := Some ''true''\<rparr>"

text \<open>\<open>question.querySelector('.option.correct')\<close>: the first option carrying the class,
  then \<open>classList.add('revealed-answer')\<close> on it when it exists.\<close>

fun revealFirstCorrect :: "opt_el list \<Rightarrow> opt_el list" where
  "revealFirstCorrect [] = []"
| "revealFirstCorrect (el # els) =
     (if ''correct'' \<in> classList el then addClass ''revealed-answer'' el # els
      else el # revealFirstCorrect els)"

text \<open>
  \<open>handleOptionClick\<close> for a click on the option with index \<open>i\<close> of the question that
  \<open>option.closest('.question')\<close> finds. A click handler is attached only to elements
  that carry the class \<open>option\<close> at load time and classes are never removed, so the
  clicked element is one of \<open>options question\<close>; an index outside the list stands for
  no element, hence no event. (When \<open>closest\<close> finds no question, the handler returns
  at once and no question changes.)
\<close>

definition handleOptionClick :: "question \<Rightarrow> nat \<Rightarrow> question" where
  "handleOptionClick question i =
     (if length (options question) \<le> i then question
      else
        let option = options question ! i in
        if answered question = ''true'' \<or> ''user-incorrect'' \<in> classList option
        then question
        else
          let isCorrect = (''correct'' \<in> classList option);
              attempts' = attempts question + 1;
              q1 = question\<lparr>attempts := attempts'\<rparr>
          in
            if isCorrect then
              let q2 = q1\<lparr>options := (options q1)[i := addClass ''user-correct'' option]\<rparr>;
                  q3 = q2\<lparr>answered := ''true''\<rparr>;
                  q4 = q3\<lparr>options := map setDisabled (options q3)\<rparr>
              in revealExplanation q4
            else
              let q2 = q1\<lparr>options :=
                           (options q1)[i := setDisabled (addClass ''user-incorrect'' option)]\<rparr>
              in
                if attempts' \<ge> 2 then
                  let q3 = q2\<lparr>answered := ''true''\<rparr>;
                      q4 = q3\<lparr>options := revealFirstCorrect (options q3)\<rparr>;
                      q5 = q4\<lparr>options :=
                                 map (\<lambda>el. if disabledAttr el \<noteq> None then el else setDisabled el)
                                     (options q4)\<rparr>
                  in revealExplanation q5
                else q2)"

text \<open>A sequence of option clicks on one question, oldest first.\<close>

definition clicks :: "question \<Rightarrow> nat list \<Rightarrow> question" where
  "clicks q is = foldl handleOptionClick q is"

text \<open>A click is ignored when the handler returns before touching anything.\<close>

definition ignored :: "question \<Rightarrow> nat \<Rightarrow> bool" where
  "ignored q i =
     (length (options q) \<le> i \<or> answered q = ''true''
      \<or> ''user-incorrect'' \<in> classList (options q ! i))"

text \<open>The load handler's initialisation of a question: \<open>dataset.attempts = '0'\<close>,
  \<open>dataset.answered = 'false'\<close>.\<close>

definition initQuestion :: "question \<Rightarrow> question" where
  "initQuestion q = q\<lparr>attempts := 0, answered := ''false''\<rparr>"

text \<open>The submissions among a sequence of clicks: the clicks the handler does not
  ignore. \<open>wrongSubmissions\<close> counts those on an option that lacks the class
  \<open>correct\<close>; it is the count the data model's description of \<open>attempts\<close> speaks of.\<close>

fun submissions :: "question \<Rightarrow> nat list \<Rightarrow> nat" where
  "submissions q [] = 0"
| "submissions q (i # is) =
     (if ignored q i then 0 else 1) + submissions (handleOptionClick q i) is"

fun wrongSubmissions :: "question \<Rightarrow> nat list \<Rightarrow> nat" where
  "wrongSubmissions q [] = 0"
| "wrongSubmissions q (i # is) =
     (if \<not> ignored q i \<and> ''correct'' \<notin> classList (options q ! i) then 1 else 0)
     + wrongSubmissions (handleOptionClick q i) is"

text \<open>The three states of a question's answer state machine, read off its data
  attributes, and their forward order.\<close>

datatype phase = Unanswered | OneWrongAttempt | Resolved

definition phaseOf :: "question \<Rightarrow> phase" where
  "phaseOf q =
     (if answered q = ''true'' then Resolved
      else if attempts q \<ge> 1 then OneWrongAttempt
      else Unanswered)"

fun phaseRank :: "phase \<Rightarrow> nat" where
  "phaseRank Unanswered = 0"
| "phaseRank OneWrongAttempt = 1"
| "phaseRank Resolved = 2"

text \<open>A question with two wrong options and a correct one, its explanation hidden.\<close>

definition sampleQuestion :: question where
  "sampleQuestion =
     \<lparr>attempts = 0, answered = ''false'',
      options = [\<lparr>classList = {''option''}, disabledAttr = None\<rparr>,
                 \<lparr>classList = {''option''}, disabledAttr = None\<rparr>,
                 \<lparr>classList = {''option'', ''correct''}, disabledAttr = None\<rparr>],
      showAnswerBtn =
        Some \<lparr>textContent = ''Aciklamayi Goster'', background = [],
              nextElementSibling = Some \<lparr>display = [], animation = []\<rparr>\<rparr>\<rparr>"

section \<open>The document as a store of nodes\<close>

text \<open>
  The view code re-parents nodes by reference, so the document is a store: every node
  has a parent pointer and an ordered child list, as in the DOM. \<open>nodeCount\<close> is the
  number of nodes there are; a walk up the parent chain of a tree never takes more
  steps than that.
  \<open>isElement\<close> tells elements from the other nodes (the document node, text, comments);
  \<open>documentNode\<close> is the root, the \<open>document\<close> object itself.

  The only nodes the code creates are the text nodes that the assignment to
  \<open>questionProgress.textContent\<close> puts into the progress readout. A new node takes the
  identity \<open>nodeCount\<close>, and \<open>nodeCount\<close> grows by one. \<open>nodeData\<close> is the text of such
  a node: the template \<open>Soru ${index + 1} / ${allQuestions.length}\<close> with its two
  numbers.
\<close>

type_synonym node = nat

datatype label = Soru int nat

record dom =
  parentNode :: "node \<Rightarrow> node option"
  childNodes :: "node \<Rightarrow> node list"
  isElement :: "node \<Rightarrow> bool"
  nodeData :: "node \<Rightarrow> label option"
  documentNode :: node
  nodeCount :: nat

text \<open>The exceptions the view code can raise: a property read on \<open>null\<close> or
  \<open>undefined\<close>, and the two errors of the DOM's pre-insertion check.\<close>

datatype exn = TypeError | NotFoundError | HierarchyRequestError

text \<open>A call either returns or throws; what it had written before throwing stays.\<close>

datatype 'a result = Returns 'a | Throws exn 'a

fun after :: "'a result \<Rightarrow> 'a" where
  "after (Returns s) = s"
| "after (Throws e s) = s"

fun thrown :: "'a result \<Rightarrow> exn option" where
  "thrown (Returns s) = None"
| "thrown (Throws e s) = Some e"

fun next_in :: "node \<Rightarrow> node list \<Rightarrow> node option" where
  "next_in x [] = None"
| "next_in x [y] = None"
| "next_in x (y # z # zs) = (if x = y then Some z else next_in x (z # zs))"

definition nextSibling :: "dom \<Rightarrow> node \<Rightarrow> node option" where
  "nextSibling d n =
     (case parentNode d n of None \<Rightarrow> None | Some p \<Rightarrow> next_in n (childNodes d p))"

definition parentElement :: "dom \<Rightarrow> node \<Rightarrow> node option" where
  "parentElement d n =
     (case parentNode d n of
        None \<Rightarrow> None
      | Some p \<Rightarrow> if isElement d p then Some p else None)"

text \<open>\<open>inclusiveAncestor par k a n\<close>: \<open>a\<close> is \<open>n\<close> or one of the first \<open>k\<close> ancestors
  of \<open>n\<close>.\<close>

fun inclusiveAncestor :: "(node \<Rightarrow> node option) \<Rightarrow> nat \<Rightarrow> node \<Rightarrow> node \<Rightarrow> bool" where
  "inclusiveAncestor par 0 a n = (a = n)"
| "inclusiveAncestor par (Suc k) a n =
     (a = n \<or> (case par n of None \<Rightarrow> False | Some p \<Rightarrow> inclusiveAncestor par k a p))"

text \<open>Placing \<open>x\<close> in a child list before the reference child, or last when there is
  none.\<close>

fun insert_at :: "node \<Rightarrow> node option \<Rightarrow> node list \<Rightarrow> node list" where
  "insert_at x None ys = ys @ [x]"
| "insert_at x (Some r) [] = [x]"
| "insert_at x (Some r) (y # ys) =
     (if y = r then x # y # ys else y # insert_at x (Some r) ys)"

text \<open>The DOM's \<open>remove\<close>: the node leaves its parent's child list.\<close>

definition removeNode :: "dom \<Rightarrow> node \<Rightarrow> dom" where
  "removeNode d n =
     (case parentNode d n of
        None \<Rightarrow> d
      | Some p \<Rightarrow> d\<lparr>parentNode := (parentNode d)(n := None),
                    childNodes := (childNodes d)(p := remove1 n (childNodes d p))\<rparr>)"

text \<open>
  \<open>parent.insertBefore(node, child)\<close> as the DOM standard defines pre-insertion:
  \<^enum> \<open>HierarchyRequestError\<close> when \<open>node\<close> is an inclusive ancestor of \<open>parent\<close>;
  \<^enum> \<open>NotFoundError\<close> when \<open>child\<close> is not null and its parent is not \<open>parent\<close>;
  \<^enum> the reference child is \<open>child\<close>, or the next sibling of \<open>node\<close> when \<open>child\<close> is
    \<open>node\<close> itself;
  \<^enum> \<open>node\<close> is removed from where it is and inserted before the reference child
    (last when that is null).
  Both checks come before any change, so a throwing call leaves the store as it was.
\<close>

definition insertBefore :: "dom \<Rightarrow> node \<Rightarrow> node \<Rightarrow> node option \<Rightarrow> exn + dom" where
  "insertBefore d parent node child =
     (if inclusiveAncestor (parentNode d) (nodeCount d) node parent
      then Inl HierarchyRequestError
      else if (case child of None \<Rightarrow> False | Some c \<Rightarrow> parentNode d c \<noteq> Some parent)
      then Inl NotFoundError
      else
        let referenceChild = (if child = Some node then nextSibling d node else child);
            d1 = removeNode d node
        in Inr (d1\<lparr>parentNode := (parentNode d1)(node := Some parent),
                   childNodes := (childNodes d1)
                      (parent := insert_at node referenceChild (childNodes d1 parent))\<rparr>))"

definition appendChild :: "dom \<Rightarrow> node \<Rightarrow> node \<Rightarrow> exn + dom" where
  "appendChild d parent node = insertBefore d parent node None"

text \<open>\<open>el.innerHTML = ''\<close>: every child of \<open>el\<close> is removed.\<close>

definition clearChildren :: "dom \<Rightarrow> node \<Rightarrow> dom" where
  "clearChildren d el =
     d\<lparr>parentNode := (\<lambda>n. if n \<in> set (childNodes d el) then None else parentNode d n),
       childNodes := (childNodes d)(el := [])\<rparr>"

text \<open>
  \<open>el.textContent = text\<close> with a text that is not empty, as the DOM standard defines
  it: every child of \<open>el\<close> is removed, and a new text node holding the text becomes
  the only child of \<open>el\<close>.
\<close>

definition setTextContent :: "dom \<Rightarrow> node \<Rightarrow> label \<Rightarrow> dom" where
  "setTextContent d el text =
     (let n = nodeCount d in
      d\<lparr>parentNode := (\<lambda>x. if x \<in> set (childNodes d el) then None else parentNode d x)
                        (n := Some el),
        childNodes := (childNodes d)(el := [n], n := []),
        isElement := (isElement d)(n := False),
        nodeData := (nodeData d)(n := Some text),
        nodeCount := Suc n\<rparr>)"


section \<open>The view controller\<close>

record QuestionRef =
  element :: node
  originalParent :: "node option"
  originalNextSibling :: "node option"

datatype mode = List | Single | Exam

fun modeName :: "mode \<Rightarrow> string" where
  "modeName List = ''list''"
| "modeName Single = ''single''"
| "modeName Exam = ''exam''"

text \<open>A \<open>.mode-btn\<close> element: its \<open>data-mode\<close> attribute and whether its class list
  holds \<open>active\<close>.\<close>

record mode_btn =
  dataMode :: "string option"
  active :: bool

text \<open>
  The module's state. The four cached controls are \<open>None\<close> when \<open>getElementById\<close>
  found nothing. The display surface and the progress readout are nodes of the store.
  Of the two navigation buttons the code writes the \<open>disabled\<close> property and nothing
  else, which is what the model keeps of them. \<open>bodyViewMode\<close> is
  \<open>document.body.dataset.viewMode\<close>.
\<close>

record view =
  allQuestions :: "QuestionRef list"
  currentQuestionIndex :: int
  currentMode :: mode
  singleQuestionContainer :: "node option"
  questionProgress :: "node option"
  prevQuestionBtn :: "bool option"
  nextQuestionBtn :: "bool option"
  bodyViewMode :: "mode option"
  modeBtns :: "mode_btn list"
  document :: dom

text \<open>\<open>allQuestions[index]\<close> is \<open>undefined\<close> outside the array, and reading \<open>.element\<close>
  of it throws a \<open>TypeError\<close>. The index and the display surface are written before
  that point and stay written.\<close>

definition renderSingleQuestion :: "view \<Rightarrow> int \<Rightarrow> view result" where
  "renderSingleQuestion s index =
     (case singleQuestionContainer s of
        None \<Rightarrow> Returns s
      | Some container \<Rightarrow>
          (case questionProgress s of
             None \<Rightarrow> Returns s
           | Some progress \<Rightarrow>
               if prevQuestionBtn s = None \<or> nextQuestionBtn s = None
                  \<or> length (allQuestions s) = 0
               then Returns s
               else
                 let s1 = s\<lparr>document := clearChildren (document s) container\<rparr>;
                     s2 = s1\<lparr>currentQuestionIndex := index\<rparr>
                 in
                   if index < 0 \<or> int (length (allQuestions s2)) \<le> index
                   then Throws TypeError s2
                   else
                     let questionToShow = allQuestions s2 ! nat index in
                     (case appendChild (document s2) container (element questionToShow) of
                        Inl e \<Rightarrow> Throws e s2
                      | Inr d \<Rightarrow>
                          Returns
                            (s2\<lparr>document :=
                                   setTextContent d progress
                                     (Soru (index + 1) (length (allQuestions s2))),
                                 prevQuestionBtn := Some (index = 0),
                                 nextQuestionBtn :=
                                   Some (index = int (length (allQuestions s2)) - 1)\<rparr>))))"

text \<open>The \<open>forEach\<close> of \<open>restoreListView\<close>. \<open>q.originalParent\<close> is \<open>null\<close> when the
  question had no parent element at load time; calling \<open>insertBefore\<close> on it throws a
  \<open>TypeError\<close>. An exception ends the loop.\<close>

fun restoreEach :: "QuestionRef list \<Rightarrow> dom \<Rightarrow> dom result" where
  "restoreEach [] d = Returns d"
| "restoreEach (q # qs) d =
     (case originalParent q of
        None \<Rightarrow> Throws TypeError d
      | Some p \<Rightarrow>
          (case insertBefore d p (element q) (originalNextSibling q) of
             Inl e \<Rightarrow> Throws e d
           | Inr d' \<Rightarrow> restoreEach qs d'))"

definition restoreListView :: "view \<Rightarrow> view result" where
  "restoreListView s =
     (let s1 = (case singleQuestionContainer s of
                  None \<Rightarrow> s
                | Some container \<Rightarrow> s\<lparr>document := clearChildren (document s) container\<rparr>)
      in case restoreEach (allQuestions s1) (document s1) of
           Returns d \<Rightarrow> Returns (s1\<lparr>document := d\<rparr>)
         | Throws e d \<Rightarrow> Throws e (s1\<lparr>document := d\<rparr>))"

definition switchMode :: "view \<Rightarrow> mode \<Rightarrow> view result" where
  "switchMode s newMode =
     (if currentMode s = newMode then Returns s
      else
        let s1 = s\<lparr>currentMode := newMode,
                   bodyViewMode := Some newMode,
                   modeBtns := map (\<lambda>btn. btn\<lparr>active := (dataMode btn = Some (modeName newMode))\<rparr>)
                                   (modeBtns s)\<rparr>
        in if newMode = List then restoreListView s1
           else renderSingleQuestion s1 (currentQuestionIndex s1))"

text \<open>The click listeners of the two navigation buttons; a listener exists only when
  its button does.\<close>

definition prevClick :: "view \<Rightarrow> view result" where
  "prevClick s =
     (if prevQuestionBtn s = None then Returns s
      else if currentQuestionIndex s > 0
      then renderSingleQuestion s (currentQuestionIndex s - 1)
      else Returns s)"

definition nextClick :: "view \<Rightarrow> view result" where
  "nextClick s =
     (if nextQuestionBtn s = None then Returns s
      else if currentQuestionIndex s < int (length (allQuestions s)) - 1
      then renderSingleQuestion s (currentQuestionIndex s + 1)
      else Returns s)"

text \<open>
  What the page offers at \<open>DOMContentLoaded\<close>: its node store, the result of
  \<open>document.querySelectorAll('.question')\<close>, the four controls looked up by id, the
  mode buttons and the body's \<open>data-view-mode\<close>.
\<close>

record page =
  pageDom :: dom
  questionElements :: "node list"
  containerEl :: "node option"
  progressEl :: "node option"
  prevBtnEl :: "bool option"
  nextBtnEl :: "bool option"
  bodyMode :: "mode option"
  modeBtnEls :: "mode_btn list"

definition load :: "page \<Rightarrow> view" where
  "load p =
     \<lparr>allQuestions =
        map (\<lambda>questionElement.
               \<lparr>element = questionElement,
                originalParent = parentElement (pageDom p) questionElement,
                originalNextSibling = nextSibling (pageDom p) questionElement\<rparr>)
            (questionElements p),
      currentQuestionIndex = 0,
      currentMode = List,
      singleQuestionContainer = containerEl p,
      questionProgress = progressEl p,
      prevQuestionBtn = prevBtnEl p,
      nextQuestionBtn = nextBtnEl p,
      bodyViewMode = bodyMode p,
      modeBtns = modeBtnEls p,
      document = pageDom p\<rparr>"

text \<open>The user's events on the view, and the states a page can reach through them. An
  exception ends the handler; the page stays in the state the handler left. A click is
  delivered whenever its listener exists, in every mode and whatever the button's
  \<open>disabled\<close> flag says, so the reachable states include all those a browser can
  reach.\<close>

datatype event = ModeClick mode | PrevClick | NextClick

fun handle :: "view \<Rightarrow> event \<Rightarrow> view result" where
  "handle s (ModeClick m) = switchMode s m"
| "handle s PrevClick = prevClick s"
| "handle s NextClick = nextClick s"

definition run :: "view \<Rightarrow> event list \<Rightarrow> view" where
  "run s evs = foldl (\<lambda>s ev. after (handle s ev)) s evs"

inductive reachable :: "page \<Rightarrow> view \<Rightarrow> bool" for p :: page where
  reachable_load: "reachable p (load p)"
| reachable_step: "reachable p s \<Longrightarrow> reachable p (after (handle s ev))"

section \<open>Document order and well-formed stores\<close>

text \<open>Tree order from a node down, and the question elements that are attached to the
  document, in document order.\<close>

fun treeOrder :: "dom \<Rightarrow> nat \<Rightarrow> node \<Rightarrow> node list" where
  "treeOrder d 0 n = [n]"
| "treeOrder d (Suc k) n = n # concat (map (treeOrder d k) (childNodes d n))"

definition questionsInOrder :: "dom \<Rightarrow> node list \<Rightarrow> node list" where
  "questionsInOrder d qs =
     filter (\<lambda>n. n \<in> set qs) (treeOrder d (nodeCount d) (documentNode d))"


text \<open>The range of the current index, as the handlers keep it.\<close>

definition indexOk :: "view \<Rightarrow> bool" where
  "indexOk s =
     (if allQuestions s = [] then currentQuestionIndex s = 0
      else 0 \<le> currentQuestionIndex s \<and> currentQuestionIndex s < int (length (allQuestions s)))"

section \<open>The round trip between the views\<close>






text \<open>The element references of a view are those its page was loaded with.\<close>

definition viewOf :: "page \<Rightarrow> view \<Rightarrow> bool" where
  "viewOf p s =
     (allQuestions s = allQuestions (load p)
      \<and> singleQuestionContainer s = containerEl p
      \<and> questionProgress s = progressEl p
      \<and> (prevQuestionBtn s = None \<longleftrightarrow> prevBtnEl p = None)
      \<and> (nextQuestionBtn s = None \<longleftrightarrow> nextBtnEl p = None))"



section \<open>Example pages\<close>

text \<open>
  A page whose section (node 3) holds two question elements (nodes 4 and 5) with no
  node between them, next to the display surface (node 6) and the progress readout
  (node 7):
  \<^verbatim>\<open><html><body><section><div class="question"></div><div class="question"></div></section><div id="single-question-container"></div><span id="question-progress"></span></body></html>\<close>
  Node 0 is the document, 1 the root element, 2 the body.
\<close>

definition adjacentDom :: dom where
  "adjacentDom =
     \<lparr>parentNode = (\<lambda>_. None)(1 := Some 0, 2 := Some 1, 3 := Some 2, 6 := Some 2,
                                 7 := Some 2, 4 := Some 3, 5 := Some 3),
      childNodes = (\<lambda>_. [])(0 := [1], 1 := [2], 2 := [3, 6, 7], 3 := [4, 5]),
      isElement = (\<lambda>n. n \<noteq> 0),
      nodeData = (\<lambda>_. None),
      documentNode = 0,
      nodeCount = 8\<rparr>"

definition adjacentPage :: page where
  "adjacentPage =
     \<lparr>pageDom = adjacentDom, questionElements = [4, 5], containerEl = Some 6,
      progressEl = Some 7, prevBtnEl = Some False, nextBtnEl = Some False,
      bodyMode = None,
      modeBtnEls = [\<lparr>dataMode = Some ''list'', active = True\<rparr>,
                    \<lparr>dataMode = Some ''single'', active = False\<rparr>,
                    \<lparr>dataMode = Some ''exam'', active = False\<rparr>]\<rparr>"

text \<open>The same page without question elements, and without its progress readout.\<close>

definition emptyPage :: page where
  "emptyPage = adjacentPage\<lparr>questionElements := []\<rparr>"

definition noProgressPage :: page where
  "noProgressPage = adjacentPage\<lparr>progressEl := None\<rparr>"





section \<open>Properties of the answer state\<close>

lemma revealExplanation_attempts [simp]: "attempts (revealExplanation q) = attempts q"
  by (simp add: revealExplanation_def split: option.splits)

lemma revealExplanation_answered [simp]: "answered (revealExplanation q) = answered q"
  by (simp add: revealExplanation_def split: option.splits)

lemma revealExplanation_options [simp]: "options (revealExplanation q) = options q"
  by (simp add: revealExplanation_def split: option.splits)

lemma revealExplanation_shown:
  assumes "showAnswerBtn q = Some b" "nextElementSibling b = Some e"
  shows "\<exists>b' e'. showAnswerBtn (revealExplanation q) = Some b' \<and> nextElementSibling b' = Some e'
           \<and> display e' \<noteq> ''none'' \<and> display e' \<noteq> []"
  using assms by (auto simp: revealExplanation_def showExplanation_def)

lemma handleOptionClick_attempts:
  "attempts (handleOptionClick q i) = (if ignored q i then attempts q else attempts q + 1)"
  by (auto simp: ignored_def handleOptionClick_def Let_def)

lemma handleOptionClick_answered:
  "answered q = ''true'' \<Longrightarrow> answered (handleOptionClick q i) = ''true''"
  by (simp add: handleOptionClick_def Let_def)

lemma attempts_clicks: "attempts (clicks q is) = attempts q + submissions q is"
  by (induction "is" arbitrary: q) (simp_all add: clicks_def handleOptionClick_attempts)

lemma answered_clicks: "answered q = ''true'' \<Longrightarrow> answered (clicks q is) = ''true''"
  by (induction "is" arbitrary: q) (simp_all add: clicks_def handleOptionClick_answered)

lemma length_revealFirstCorrect [simp]: "length (revealFirstCorrect els) = length els"
  by (induction els) auto

lemma revealFirstCorrect_first:
  "c < length els \<Longrightarrow> ''correct'' \<in> classList (els ! c) \<Longrightarrow>
   \<forall>k<c. ''correct'' \<notin> classList (els ! k) \<Longrightarrow>
   revealFirstCorrect els ! c = addClass ''revealed-answer'' (els ! c)"
proof (induction els arbitrary: c)
  case Nil
  then show ?case by simp
next
  case (Cons el els)
  show ?case
  proof (cases c)
    case 0
    with Cons.prems show ?thesis by simp
  next
    case (Suc c')
    with Cons.prems have "''correct'' \<notin> classList el" by auto
    moreover have "\<forall>k<c'. ''correct'' \<notin> classList (els ! k)"
      using Cons.prems(3) Suc by auto
    ultimately show ?thesis using Cons.IH [of c'] Cons.prems Suc by simp
  qed
qed

lemma first_wrong_click:
  assumes "attempts q = 0" "answered q \<noteq> ''true''" "i < length (options q)"
    and "''correct'' \<notin> classList (options q ! i)"
    and "''user-incorrect'' \<notin> classList (options q ! i)"
  shows "handleOptionClick q i =
           q\<lparr>attempts := 1,
             options := (options q)[i := setDisabled (addClass ''user-incorrect'' (options q ! i))]\<rparr>"
  using assms by (simp add: handleOptionClick_def Let_def)

lemma second_wrong_click:
  assumes "attempts q = 1" "answered q \<noteq> ''true''" "j < length (options q)"
    and "''correct'' \<notin> classList (options q ! j)"
    and "''user-incorrect'' \<notin> classList (options q ! j)"
  shows "handleOptionClick q j =
           revealExplanation
             (q\<lparr>attempts := 2, answered := ''true'',
                options := map (\<lambda>el. if disabledAttr el \<noteq> None then el else setDisabled el)
                  (revealFirstCorrect
                     ((options q)[j := setDisabled (addClass ''user-incorrect'' (options q ! j))]))\<rparr>)"
  using assms by (simp add: handleOptionClick_def Let_def numeral_2_eq_2)

text \<open>
  C2, as the claim states it, fails: \<open>attempts\<close> is incremented before the handler
  looks at correctness, so a first click on the correct option leaves \<open>attempts = 1\<close>
  with no wrong submission made.
\<close>

theorem C2_counterexample:
  "attempts (clicks (initQuestion sampleQuestion) [2]) = 1
   \<and> wrongSubmissions (initQuestion sampleQuestion) [2] = 0"
  by (simp add: sampleQuestion_def initQuestion_def clicks_def handleOptionClick_def ignored_def
      Let_def revealExplanation_def showExplanation_def setDisabled_def addClass_def)

text \<open>
  C2, amended. For every question and every sequence of option clicks, \<open>attempts\<close>
  starts at 0 and equals the number of submissions made on the question, that is of
  clicks the handler does not ignore, on a correct option or a wrong one alike.
\<close>

theorem C2_attempts_counts_submissions:
  "attempts (initQuestion q) = 0
   \<and> attempts (clicks (initQuestion q) is) = submissions (initQuestion q) is"
  by (simp add: attempts_clicks) (simp add: initQuestion_def)

theorem C2_attempts_witness:
  "attempts (clicks (initQuestion sampleQuestion) [0, 0, 2, 1]) = 2
   \<and> submissions (initQuestion sampleQuestion) [0, 0, 2, 1] = 2"
proof -
  have "submissions (initQuestion sampleQuestion) [0, 0, 2, 1] = 2"
    by (simp add: sampleQuestion_def initQuestion_def handleOptionClick_def ignored_def
        Let_def revealExplanation_def showExplanation_def setDisabled_def addClass_def)
  with C2_attempts_counts_submissions [of sampleQuestion "[0, 0, 2, 1]"] show ?thesis
    by simp
qed

text \<open>
  C4. Across any sequence of option clicks on a question, \<open>answered\<close> never goes from
  \<open>'true'\<close> to anything else, \<open>attempts\<close> never decreases, and the state machine
  Unanswered, OneWrongAttempt, Resolved only moves forward.
\<close>

theorem C4_answer_state_monotone:
  "(answered q = ''true'' \<longrightarrow> answered (clicks q is) = ''true'')
   \<and> attempts q \<le> attempts (clicks q is)
   \<and> phaseRank (phaseOf q) \<le> phaseRank (phaseOf (clicks q is))"
proof -
  have a: "answered q = ''true'' \<longrightarrow> answered (clicks q is) = ''true''"
    by (simp add: answered_clicks)
  have b: "attempts q \<le> attempts (clicks q is)"
    by (simp add: attempts_clicks)
  have "phaseRank (phaseOf q) \<le> phaseRank (phaseOf (clicks q is))"
    using a b by (auto simp: phaseOf_def)
  with a b show ?thesis by blast
qed

theorem C4_monotone_witness:
  "answered (clicks sampleQuestion [0, 1]) = ''true''
   \<and> answered (clicks (clicks sampleQuestion [0, 1]) [2, 0]) = ''true''
   \<and> attempts (clicks sampleQuestion [0, 1]) \<le> attempts (clicks (clicks sampleQuestion [0, 1]) [2, 0])"
proof -
  have "answered (clicks sampleQuestion [0, 1]) = ''true''"
    by (simp add: sampleQuestion_def clicks_def handleOptionClick_def Let_def
        revealExplanation_def showExplanation_def setDisabled_def addClass_def)
  with C4_answer_state_monotone [of "clicks sampleQuestion [0, 1]" "[2, 0]"] show ?thesis
    by simp
qed

text \<open>
  C5. On a question with \<open>attempts = 0\<close> and \<open>answered = 'false'\<close>, a click on a wrong
  option \<open>i\<close> gives \<open>attempts = 1\<close>, disables that option, leaves \<open>answered\<close> at
  \<open>'false'\<close> and leaves the answer button and its explanation as they were. A click on
  another wrong option \<open>j\<close> then gives \<open>attempts = 2\<close> and \<open>answered = 'true'\<close>, adds
  \<open>revealed-answer\<close> to the first option that carries \<open>correct\<close>, leaves the explanation
  (when the question has one) displayed, and leaves every option with a \<open>disabled\<close>
  attribute.
\<close>

theorem C5_two_wrong_clicks:
  assumes fresh: "attempts q = 0" "answered q = ''false''"
    and i: "i < length (options q)" "''correct'' \<notin> classList (options q ! i)"
           "''user-incorrect'' \<notin> classList (options q ! i)"
    and j: "j < length (options q)" "j \<noteq> i" "''correct'' \<notin> classList (options q ! j)"
           "''user-incorrect'' \<notin> classList (options q ! j)"
  shows "attempts (handleOptionClick q i) = 1
       \<and> disabledAttr (options (handleOptionClick q i) ! i) = Some ''true''
       \<and> answered (handleOptionClick q i) = ''false''
       \<and> showAnswerBtn (handleOptionClick q i) = showAnswerBtn q
       \<and> attempts (handleOptionClick (handleOptionClick q i) j) = 2
       \<and> answered (handleOptionClick (handleOptionClick q i) j) = ''true''
       \<and> (\<forall>c<length (options q).
             ''correct'' \<in> classList (options q ! c) \<and> (\<forall>k<c. ''correct'' \<notin> classList (options q ! k))
             \<longrightarrow> ''revealed-answer'' \<in> classList (options (handleOptionClick (handleOptionClick q i) j) ! c))
       \<and> (\<forall>b e. showAnswerBtn q = Some b \<and> nextElementSibling b = Some e \<longrightarrow>
             (\<exists>b' e'. showAnswerBtn (handleOptionClick (handleOptionClick q i) j) = Some b'
                \<and> nextElementSibling b' = Some e' \<and> display e' \<noteq> ''none'' \<and> display e' \<noteq> []))
       \<and> length (options (handleOptionClick (handleOptionClick q i) j)) = length (options q)
       \<and> (\<forall>k<length (options q).
             disabledAttr (options (handleOptionClick (handleOptionClick q i) j) ! k) \<noteq> None)"
proof -
  define w where "w = (\<lambda>el. setDisabled (addClass ''user-incorrect'' el))"
  define q1 where "q1 = handleOptionClick q i"
  define q2 where "q2 = handleOptionClick q1 j"
  have q1: "q1 = q\<lparr>attempts := 1, options := (options q)[i := w (options q ! i)]\<rparr>"
    unfolding q1_def w_def using fresh i by (intro first_wrong_click) simp_all
  have oj: "options q1 ! j = options q ! j"
    using j by (simp add: q1)
  define os where "os = (options q1)[j := w (options q1 ! j)]"
  define pre where
    "pre = q1\<lparr>attempts := 2, answered := ''true'',
              options := map (\<lambda>el. if disabledAttr el \<noteq> None then el else setDisabled el)
                           (revealFirstCorrect os)\<rparr>"
  have q2: "q2 = revealExplanation pre"
    unfolding q2_def pre_def os_def w_def
    using fresh j oj by (intro second_wrong_click) (simp_all add: q1)
  have len: "length os = length (options q)"
    by (simp add: os_def q1)
  have cls: "''correct'' \<in> classList (os ! k) \<longleftrightarrow> ''correct'' \<in> classList (options q ! k)"
    if "k < length (options q)" for k
    using that i j
    by (cases "k = j"; cases "k = i") (simp_all add: os_def q1 w_def setDisabled_def addClass_def)
  have revealed: "''revealed-answer'' \<in> classList (options q2 ! c)"
    if c: "c < length (options q)" "''correct'' \<in> classList (options q ! c)"
          "\<forall>k<c. ''correct'' \<notin> classList (options q ! k)" for c
  proof -
    have "revealFirstCorrect os ! c = addClass ''revealed-answer'' (os ! c)"
      using c len cls by (intro revealFirstCorrect_first) auto
    then show ?thesis
      using c len by (simp add: q2 pre_def addClass_def setDisabled_def)
  qed
  have shown: "\<exists>b' e'. showAnswerBtn q2 = Some b' \<and> nextElementSibling b' = Some e'
                 \<and> display e' \<noteq> ''none'' \<and> display e' \<noteq> []"
    if "showAnswerBtn q = Some b" "nextElementSibling b = Some e" for b e
    unfolding q2 using that by (intro revealExplanation_shown [of _ b e]) (simp_all add: pre_def q1)
  have disabled: "disabledAttr (options q2 ! k) \<noteq> None" if "k < length (options q)" for k
    using that len by (simp add: q2 pre_def setDisabled_def)
  have "attempts q1 = 1" "disabledAttr (options q1 ! i) = Some ''true''"
       "answered q1 = ''false''" "showAnswerBtn q1 = showAnswerBtn q"
    using fresh i by (simp_all add: q1 w_def setDisabled_def)
  moreover have "attempts q2 = 2" "answered q2 = ''true''" "length (options q2) = length (options q)"
    using len by (simp_all add: q2 pre_def)
  ultimately show ?thesis
    using revealed shown disabled unfolding q1_def q2_def by blast
qed

theorem C5_two_wrong_clicks_witness:
  "attempts sampleQuestion = 0 \<and> answered sampleQuestion = ''false''
   \<and> attempts (handleOptionClick sampleQuestion 0) = 1
   \<and> answered (handleOptionClick sampleQuestion 0) = ''false''
   \<and> attempts (handleOptionClick (handleOptionClick sampleQuestion 0) 1) = 2
   \<and> answered (handleOptionClick (handleOptionClick sampleQuestion 0) 1) = ''true''
   \<and> ''revealed-answer''
        \<in> classList (options (handleOptionClick (handleOptionClick sampleQuestion 0) 1) ! 2)"
proof -
  have h: "attempts sampleQuestion = 0" "answered sampleQuestion = ''false''"
    "0 < length (options sampleQuestion)"
    "''correct'' \<notin> classList (options sampleQuestion ! 0)"
    "''user-incorrect'' \<notin> classList (options sampleQuestion ! 0)"
    "1 < length (options sampleQuestion)" "(1::nat) \<noteq> 0"
    "''correct'' \<notin> classList (options sampleQuestion ! 1)"
    "''user-incorrect'' \<notin> classList (options sampleQuestion ! 1)"
    by (simp_all add: sampleQuestion_def)
  have c: "2 < length (options sampleQuestion)"
    "''correct'' \<in> classList (options sampleQuestion ! 2)"
    "\<forall>k<2. ''correct'' \<notin> classList (options sampleQuestion ! k)"
    by (simp_all add: sampleQuestion_def less_Suc_eq numeral_2_eq_2)
  from C5_two_wrong_clicks [OF h] c h(1,2) show ?thesis
    by blast
qed

text \<open>
  C8. A click on any option of a question whose \<open>answered\<close> is \<open>'true'\<close>, or on an option
  already marked \<open>user-incorrect\<close>, returns the question it was given: attempts,
  answered, every option's classes and disabled attribute, and the explanation are
  all unchanged.
\<close>

theorem C8_ignored_click_changes_nothing:
  "answered q = ''true'' \<or> (i < length (options q) \<and> ''user-incorrect'' \<in> classList (options q ! i))
   \<Longrightarrow> handleOptionClick q i = q"
  by (auto simp: handleOptionClick_def Let_def)

theorem C8_ignored_click_witness:
  "answered (clicks sampleQuestion [2]) = ''true''
   \<and> handleOptionClick (clicks sampleQuestion [2]) 0 = clicks sampleQuestion [2]
   \<and> handleOptionClick (clicks sampleQuestion [2]) 2 = clicks sampleQuestion [2]"
proof -
  have "answered (clicks sampleQuestion [2]) = ''true''"
    by (simp add: sampleQuestion_def clicks_def handleOptionClick_def Let_def
        revealExplanation_def showExplanation_def setDisabled_def addClass_def)
  then show ?thesis
    using C8_ignored_click_changes_nothing [of "clicks sampleQuestion [2]" 0]
      C8_ignored_click_changes_nothing [of "clicks sampleQuestion [2]" 2]
    by simp
qed

section \<open>Properties of the view controller\<close>

lemma inclusiveAncestor_cut:
  "\<forall>x. par' x = par x \<or> par' x = None \<Longrightarrow> inclusiveAncestor par' k a n \<Longrightarrow>
   inclusiveAncestor par k a n"
proof (induction k arbitrary: n)
  case 0
  then show ?case by simp
next
  case (Suc k)
  show ?case
  proof (cases "a = n")
    case True
    then show ?thesis by simp
  next
    case False
    with Suc.prems(2) obtain p where p: "par' n = Some p" "inclusiveAncestor par' k a p"
      by (auto split: option.splits)
    with Suc.prems(1) have "par n = Some p" by (metis option.distinct(1))
    with Suc.IH [OF Suc.prems(1) p(2)] show ?thesis by simp
  qed
qed

lemma clearChildren_not_ancestor:
  "\<not> inclusiveAncestor (parentNode d) k a n \<Longrightarrow>
   \<not> inclusiveAncestor (parentNode (clearChildren d c)) k a n"
proof -
  have "\<forall>x. parentNode (clearChildren d c) x = parentNode d x
           \<or> parentNode (clearChildren d c) x = None"
    by (simp add: clearChildren_def)
  then show "\<not> inclusiveAncestor (parentNode d) k a n \<Longrightarrow>
     \<not> inclusiveAncestor (parentNode (clearChildren d c)) k a n"
    using inclusiveAncestor_cut by blast
qed

lemma nodeCount_clearChildren [simp]: "nodeCount (clearChildren d c) = nodeCount d"
  by (simp add: clearChildren_def)

lemma renderSingleQuestion_returns:
  assumes "singleQuestionContainer s = Some c" "questionProgress s \<noteq> None"
    "prevQuestionBtn s \<noteq> None" "nextQuestionBtn s \<noteq> None"
    "0 \<le> i" "i < int (length (allQuestions s))"
    "\<not> inclusiveAncestor (parentNode (document s)) (nodeCount (document s))
         (element (allQuestions s ! nat i)) c"
  shows "\<exists>s'. renderSingleQuestion s i = Returns s'"
proof -
  have "\<not> inclusiveAncestor (parentNode (clearChildren (document s) c)) (nodeCount (document s))
         (element (allQuestions s ! nat i)) c"
    using assms(7) by (rule clearChildren_not_ancestor)
  then show ?thesis
    using assms(1-6)
    by (auto simp: renderSingleQuestion_def Let_def appendChild_def insertBefore_def)
qed

lemma renderSingleQuestion_flags:
  assumes "renderSingleQuestion s i = Returns s'"
    and "singleQuestionContainer s \<noteq> None" "questionProgress s \<noteq> None"
    "prevQuestionBtn s \<noteq> None" "nextQuestionBtn s \<noteq> None" "allQuestions s \<noteq> []"
  shows "prevQuestionBtn s' = Some (i = 0)
       \<and> nextQuestionBtn s' = Some (i = int (length (allQuestions s)) - 1)"
  using assms
  by (auto simp: renderSingleQuestion_def Let_def split: option.splits if_splits sum.splits)

text \<open>
  C6. When \<open>renderSingleQuestion(i)\<close> runs to its end with the display surface, the
  progress readout and both navigation buttons present and a non-empty registry, the
  previous button is disabled exactly when \<open>i = 0\<close> and the next button exactly when
  \<open>i = allQuestions.length - 1\<close>; with a registry of length 1 both are disabled. It does
  run to its end for every index of the registry whose question element is not an
  ancestor of the display surface.
\<close>

theorem C6_navigation_bounds:
  assumes "singleQuestionContainer s = Some c" "questionProgress s \<noteq> None"
    "prevQuestionBtn s \<noteq> None" "nextQuestionBtn s \<noteq> None" "allQuestions s \<noteq> []"
  shows "(\<forall>s'. renderSingleQuestion s i = Returns s' \<longrightarrow>
            prevQuestionBtn s' = Some (i = 0)
          \<and> nextQuestionBtn s' = Some (i = int (length (allQuestions s)) - 1)
          \<and> (length (allQuestions s) = 1 \<longrightarrow>
                prevQuestionBtn s' = Some True \<and> nextQuestionBtn s' = Some True))
       \<and> (0 \<le> i \<and> i < int (length (allQuestions s))
          \<and> \<not> inclusiveAncestor (parentNode (document s)) (nodeCount (document s))
                (element (allQuestions s ! nat i)) c
          \<longrightarrow> (\<exists>s'. renderSingleQuestion s i = Returns s'))"
proof -
  have one: "prevQuestionBtn s' = Some True \<and> nextQuestionBtn s' = Some True"
    if r: "renderSingleQuestion s i = Returns s'" and l: "length (allQuestions s) = 1" for s'
  proof -
    have "i = 0"
      using r l assms
      by (auto simp: renderSingleQuestion_def Let_def split: option.splits if_splits sum.splits)
    with renderSingleQuestion_flags [OF r] assms l show ?thesis by simp
  qed
  show ?thesis
    using renderSingleQuestion_flags [of s i] renderSingleQuestion_returns [of s c i] assms one
    by (metis option.distinct(1))
qed


lemma renderSingleQuestion_allQuestions [simp]:
  "allQuestions (after (renderSingleQuestion s i)) = allQuestions s"
  by (simp add: renderSingleQuestion_def Let_def split: option.splits sum.splits)

lemma restoreListView_allQuestions [simp]:
  "allQuestions (after (restoreListView s)) = allQuestions s"
  by (simp add: restoreListView_def Let_def split: option.splits result.splits)

lemma switchMode_allQuestions [simp]: "allQuestions (after (switchMode s m)) = allQuestions s"
  by (simp add: switchMode_def Let_def)

lemma handle_allQuestions [simp]: "allQuestions (after (handle s ev)) = allQuestions s"
  by (cases ev) (simp_all add: prevClick_def nextClick_def)

lemma renderSingleQuestion_indexOk:
  assumes "indexOk s" "allQuestions s \<noteq> [] \<longrightarrow> 0 \<le> i \<and> i < int (length (allQuestions s))"
  shows "indexOk (after (renderSingleQuestion s i))"
  using assms
  by (auto simp: indexOk_def renderSingleQuestion_def Let_def split: option.splits sum.splits)

lemma restoreListView_index [simp]:
  "currentQuestionIndex (after (restoreListView s)) = currentQuestionIndex s"
  by (simp add: restoreListView_def Let_def split: option.splits result.splits)

lemma restoreListView_indexOk: "indexOk s \<Longrightarrow> indexOk (after (restoreListView s))"
  by (simp add: indexOk_def)

lemma handle_indexOk:
  assumes "indexOk s"
  shows "indexOk (after (handle s ev))"
proof (cases ev)
  case (ModeClick m)
  define s1 where
    "s1 = s\<lparr>currentMode := m, bodyViewMode := Some m,
            modeBtns := map (\<lambda>btn. btn\<lparr>active := (dataMode btn = Some (modeName m))\<rparr>) (modeBtns s)\<rparr>"
  have ok1: "indexOk s1"
    using assms by (simp add: indexOk_def s1_def)
  have "indexOk (after (renderSingleQuestion s1 (currentQuestionIndex s1)))"
    using ok1 by (intro renderSingleQuestion_indexOk) (auto simp: indexOk_def)
  moreover have "indexOk (after (restoreListView s1))"
    using ok1 by (rule restoreListView_indexOk)
  moreover have "switchMode s m =
      (if currentMode s = m then Returns s
       else if m = List then restoreListView s1
       else renderSingleQuestion s1 (currentQuestionIndex s1))"
    by (simp add: switchMode_def Let_def s1_def)
  ultimately show ?thesis
    using assms ModeClick by simp
next
  case PrevClick
  have "indexOk (after (renderSingleQuestion s (currentQuestionIndex s - 1)))"
    if "currentQuestionIndex s > 0"
    using assms that by (intro renderSingleQuestion_indexOk) (auto simp: indexOk_def split: if_splits)
  then show ?thesis
    using assms PrevClick by (simp add: prevClick_def)
next
  case NextClick
  have "indexOk (after (renderSingleQuestion s (currentQuestionIndex s + 1)))"
    if "currentQuestionIndex s < int (length (allQuestions s)) - 1"
    using assms that by (intro renderSingleQuestion_indexOk) (auto simp: indexOk_def split: if_splits)
  then show ?thesis
    using assms NextClick by (simp add: nextClick_def)
qed

lemma reachable_indexOk: "reachable p s \<Longrightarrow> indexOk s"
proof (induction rule: reachable.induct)
  case reachable_load
  show ?case by (simp add: indexOk_def load_def)
next
  case (reachable_step s ev)
  then show ?case by (simp add: handle_indexOk)
qed

lemma reachable_allQuestions: "reachable p s \<Longrightarrow> allQuestions s = allQuestions (load p)"
  by (induction rule: reachable.induct) simp_all

theorem C6_navigation_witness:
  "thrown (renderSingleQuestion (load adjacentPage) 1) = None
   \<and> prevQuestionBtn (after (renderSingleQuestion (load adjacentPage) 1)) = Some False
   \<and> nextQuestionBtn (after (renderSingleQuestion (load adjacentPage) 1)) = Some True"
proof -
  have h: "singleQuestionContainer (load adjacentPage) = Some 6"
    "questionProgress (load adjacentPage) \<noteq> None" "prevQuestionBtn (load adjacentPage) \<noteq> None"
    "nextQuestionBtn (load adjacentPage) \<noteq> None" "allQuestions (load adjacentPage) \<noteq> []"
    by (simp_all add: load_def adjacentPage_def)
  have v: "(0::int) \<le> 1 \<and> 1 < int (length (allQuestions (load adjacentPage)))
     \<and> \<not> inclusiveAncestor (parentNode (document (load adjacentPage)))
           (nodeCount (document (load adjacentPage)))
           (element (allQuestions (load adjacentPage) ! nat 1)) 6"
    by (simp add: load_def adjacentPage_def adjacentDom_def eval_nat_numeral)
  from C6_navigation_bounds [OF h, of 1] v
  obtain s' where s': "renderSingleQuestion (load adjacentPage) 1 = Returns s'"
    by blast
  with C6_navigation_bounds [OF h, of 1]
  have "prevQuestionBtn s' = Some ((1::int) = 0)"
    "nextQuestionBtn s' = Some ((1::int) = int (length (allQuestions (load adjacentPage))) - 1)"
    by blast+
  with s' show ?thesis
    by (simp add: load_def adjacentPage_def)
qed

text \<open>
  C9, amended. In every reachable state, in any mode, \<open>currentQuestionIndex\<close> lies in
  \<open>[0, allQuestions.length)\<close> when the registry is not empty, and is 0 when it is
  empty.
\<close>

theorem C9_index_in_range:
  assumes "reachable p s"
  shows "(allQuestions s \<noteq> [] \<longrightarrow>
            0 \<le> currentQuestionIndex s \<and> currentQuestionIndex s < int (length (allQuestions s)))
       \<and> (allQuestions s = [] \<longrightarrow> currentQuestionIndex s = 0)"
  using reachable_indexOk [OF assms] by (simp add: indexOk_def)

text \<open>
  C9, as the claim states it, fails for the empty registry: \<open>switchMode('single')\<close>
  sets the mode, \<open>renderSingleQuestion\<close> returns at its guard, and the index 0 is not
  below the length 0.
\<close>

theorem C9_counterexample:
  "reachable emptyPage (after (handle (load emptyPage) (ModeClick Single)))
   \<and> currentMode (after (handle (load emptyPage) (ModeClick Single))) = Single
   \<and> \<not> (0 \<le> currentQuestionIndex (after (handle (load emptyPage) (ModeClick Single)))
        \<and> currentQuestionIndex (after (handle (load emptyPage) (ModeClick Single)))
            < int (length (allQuestions (after (handle (load emptyPage) (ModeClick Single))))))"
proof -
  have "reachable emptyPage (after (handle (load emptyPage) (ModeClick Single)))"
    by (intro reachable_step reachable_load)
  moreover have "currentMode (after (handle (load emptyPage) (ModeClick Single))) = Single"
    by (simp add: emptyPage_def adjacentPage_def load_def switchMode_def renderSingleQuestion_def)
  moreover have "allQuestions (after (handle (load emptyPage) (ModeClick Single))) = []"
    by (simp add: emptyPage_def load_def)
  ultimately show ?thesis by simp
qed

theorem C9_index_witness:
  "reachable adjacentPage (run (load adjacentPage) [ModeClick Single, NextClick])
   \<and> allQuestions (run (load adjacentPage) [ModeClick Single, NextClick]) \<noteq> []
   \<and> currentQuestionIndex (run (load adjacentPage) [ModeClick Single, NextClick]) = 1
   \<and> currentQuestionIndex (run (load adjacentPage) [ModeClick Single, NextClick])
       < int (length (allQuestions (run (load adjacentPage) [ModeClick Single, NextClick])))"
proof -
  have r: "reachable adjacentPage (run (load adjacentPage) [ModeClick Single, NextClick])"
    unfolding run_def foldl.simps by (intro reachable_step reachable_load)
  have q: "allQuestions (run (load adjacentPage) [ModeClick Single, NextClick]) \<noteq> []"
    using reachable_allQuestions [OF r] by (simp add: load_def adjacentPage_def)
  have i: "currentQuestionIndex (run (load adjacentPage) [ModeClick Single, NextClick]) = 1"
    by code_simp
  from C9_index_in_range [OF r] r q i show ?thesis by simp
qed

text \<open>
  C10. When \<open>switchMode\<close> is called with Single or Exam, a mode other than the current
  one, while the guard of \<open>renderSingleQuestion\<close> fails (no display surface, progress
  readout or navigation button, or an empty registry), it returns the state it was
  given with \<open>currentMode\<close>, the body's view mode and the mode buttons' active classes
  updated and nothing else changed: the document, and with it the display surface, is
  as before.
\<close>

theorem C10_mode_change_not_rolled_back:
  assumes "currentMode s \<noteq> m" "m \<noteq> List"
    and "singleQuestionContainer s = None \<or> questionProgress s = None
         \<or> prevQuestionBtn s = None \<or> nextQuestionBtn s = None \<or> allQuestions s = []"
  shows "switchMode s m =
           Returns (s\<lparr>currentMode := m, bodyViewMode := Some m,
                      modeBtns := map (\<lambda>btn. btn\<lparr>active := (dataMode btn = Some (modeName m))\<rparr>)
                                      (modeBtns s)\<rparr>)"
  using assms
  by (auto simp: switchMode_def renderSingleQuestion_def Let_def split: option.splits)

theorem C10_witness:
  "currentMode (after (switchMode (load noProgressPage) Exam)) = Exam
   \<and> bodyViewMode (after (switchMode (load noProgressPage) Exam)) = Some Exam
   \<and> map active (modeBtns (after (switchMode (load noProgressPage) Exam))) = [False, False, True]
   \<and> allQuestions (after (switchMode (load noProgressPage) Exam)) \<noteq> []
   \<and> childNodes (document (after (switchMode (load noProgressPage) Exam))) 6 = []"
proof -
  have "currentMode (load noProgressPage) \<noteq> Exam" "Exam \<noteq> List"
    "singleQuestionContainer (load noProgressPage) = None
     \<or> questionProgress (load noProgressPage) = None
     \<or> prevQuestionBtn (load noProgressPage) = None
     \<or> nextQuestionBtn (load noProgressPage) = None
     \<or> allQuestions (load noProgressPage) = []"
    by (simp_all add: load_def noProgressPage_def)
  from C10_mode_change_not_rolled_back [OF this] show ?thesis
    by (simp add: load_def noProgressPage_def adjacentPage_def adjacentDom_def)
qed

text \<open>
  C3 on the page with two adjacent questions, in the state reached by switching to
  Single and pressing next: question 5 is shown, question 4 is detached, and the next
  sibling captured for 4 is 5. \<open>restoreListView\<close> empties the display surface and then
  calls \<open>insertBefore(4, 5)\<close> on the section, of which 5 is no child: the call throws
  \<open>NotFoundError\<close> instead of appending 4, and the section is left without questions.
  The next button was enabled when it was pressed, and the click on the list mode
  button, which is how \<open>restoreListView\<close> gets called, throws the same error.
\<close>

theorem C3_restore_throws:
  "reachable adjacentPage (run (load adjacentPage) [ModeClick Single, NextClick])
   \<and> allQuestions (run (load adjacentPage) [ModeClick Single, NextClick])
       = [\<lparr>element = 4, originalParent = Some 3, originalNextSibling = Some 5\<rparr>,
          \<lparr>element = 5, originalParent = Some 3, originalNextSibling = None\<rparr>]
   \<and> nextQuestionBtn (run (load adjacentPage) [ModeClick Single]) = Some False
   \<and> thrown (restoreListView (run (load adjacentPage) [ModeClick Single, NextClick]))
       = Some NotFoundError
   \<and> childNodes (document (after (restoreListView
        (run (load adjacentPage) [ModeClick Single, NextClick])))) 3 = []
   \<and> thrown (handle (run (load adjacentPage) [ModeClick Single, NextClick]) (ModeClick List))
       = Some NotFoundError"
proof -
  have "nextQuestionBtn (run (load adjacentPage) [ModeClick Single]) = Some False"
    by code_simp
  moreover have "thrown (handle (run (load adjacentPage) [ModeClick Single, NextClick])
      (ModeClick List)) = Some NotFoundError"
    by code_simp
  moreover
  have "reachable adjacentPage (run (load adjacentPage) [ModeClick Single, NextClick])"
    unfolding run_def foldl.simps by (intro reachable_step reachable_load)
  moreover have "allQuestions (run (load adjacentPage) [ModeClick Single, NextClick])
       = [\<lparr>element = 4, originalParent = Some 3, originalNextSibling = Some 5\<rparr>,
          \<lparr>element = 5, originalParent = Some 3, originalNextSibling = None\<rparr>]"
    by code_simp
  moreover have "thrown (restoreListView (run (load adjacentPage) [ModeClick Single, NextClick]))
       = Some NotFoundError"
    by code_simp
  moreover have "childNodes (document (after (restoreListView
        (run (load adjacentPage) [ModeClick Single, NextClick])))) 3 = []"
    by code_simp
  ultimately show ?thesis by blast
qed

text \<open>
  C7 on the same page and state: the first call of \<open>restoreListView\<close> throws and
  leaves both questions out of the document, and a further call throws again and
  changes nothing, so the document order of the question elements, \<open>[4, 5]\<close> at
  load time, is not restored by any number of calls.
\<close>

theorem C7_restore_not_idempotent:
  "reachable adjacentPage (run (load adjacentPage) [ModeClick Single, NextClick])
   \<and> questionsInOrder (pageDom adjacentPage) (questionElements adjacentPage) = [4, 5]
   \<and> questionsInOrder
        (document (after (restoreListView (run (load adjacentPage) [ModeClick Single, NextClick]))))
        (questionElements adjacentPage) = []
   \<and> questionsInOrder
        (document (after (restoreListView (after (restoreListView
           (run (load adjacentPage) [ModeClick Single, NextClick]))))))
        (questionElements adjacentPage) = []"
proof -
  have "reachable adjacentPage (run (load adjacentPage) [ModeClick Single, NextClick])"
    unfolding run_def foldl.simps by (intro reachable_step reachable_load)
  moreover have "questionsInOrder (pageDom adjacentPage) (questionElements adjacentPage) = [4, 5]"
    by code_simp
  moreover have "questionsInOrder
        (document (after (restoreListView (run (load adjacentPage) [ModeClick Single, NextClick]))))
        (questionElements adjacentPage) = []"
    by code_simp
  moreover have "questionsInOrder
        (document (after (restoreListView (after (restoreListView
           (run (load adjacentPage) [ModeClick Single, NextClick]))))))
        (questionElements adjacentPage) = []"
    by code_simp
  ultimately show ?thesis by blast
qed

section \<open>Properties of the round trip\<close>























lemma documentNode_clearChildren [simp]:
  "documentNode (clearChildren d c) = documentNode d"
  by (simp add: clearChildren_def)












lemma viewOf_mode [simp]:
  "viewOf p (s\<lparr>currentMode := m, bodyViewMode := b, modeBtns := bs\<rparr>) = viewOf p s"
  by (simp add: viewOf_def)

















end
